theory Spec2Isabelle
  imports Main "HOL-Library.Multiset"
begin

section \<open>Strings\<close>

text \<open>
  Python strings are modelled as \<open>string\<close> (lists of 8-bit characters); case mapping and
  the class \<open>[a-zA-Z]\<close> are the ASCII ones.
\<close>

definition is_letter :: "char \<Rightarrow> bool" where
  "is_letter c = (let n = (of_char c :: nat) in (65 \<le> n \<and> n \<le> 90) \<or> (97 \<le> n \<and> n \<le> 122))"

definition lower_char :: "char \<Rightarrow> char" where
  "lower_char c = (let n = (of_char c :: nat) in if 65 \<le> n \<and> n \<le> 90 then char_of (n + 32) else c)"

definition upper_char :: "char \<Rightarrow> char" where
  "upper_char c = (let n = (of_char c :: nat) in if 97 \<le> n \<and> n \<le> 122 then char_of (n - 32) else c)"

definition lower :: "string \<Rightarrow> string" where
  "lower s = map lower_char s"

definition upper :: "string \<Rightarrow> string" where
  "upper s = map upper_char s"

section \<open>Regular expressions of the router (symbol\_router.py, functions.py)\<close>

text \<open>
  A pattern is modelled by its matcher at one position of the text: \<open>m text p\<close> is
  \<open>None\<close> when the pattern does not match at \<open>p\<close>, and otherwise the position where
  group 1 starts, the text of group 1 and the position where the match ends.
\<close>

type_synonym pattern = "string \<Rightarrow> nat \<Rightarrow> (nat \<times> string \<times> nat) option"

definition char_at :: "string \<Rightarrow> nat \<Rightarrow> char option" where
  "char_at text p = (if p < length text then Some (text ! p) else None)"

text \<open>\<open>[a-zA-Z]{1,n}\<close> at position \<open>p\<close>, greedy: the longest run of letters, at most \<open>n\<close>.\<close>

definition letters :: "nat \<Rightarrow> string \<Rightarrow> nat \<Rightarrow> string" where
  "letters n text p = take n (takeWhile is_letter (drop p text))"

text \<open>
  \<^verbatim>\<open>STOCK_REGEX = "(?:^|[^\\$])\\$([a-zA-Z]{1,4})"\<close>: the first alternative is the start of
  the string (no MULTILINE flag), the second consumes one character other than the dollar sign.
\<close>

definition STOCK_REGEX :: pattern where
  "STOCK_REGEX text p =
     (if p = 0 \<and> char_at text 0 = Some CHR ''$'' \<and> letters 4 text 1 \<noteq> []
      then Some (1, letters 4 text 1, 1 + length (letters 4 text 1))
      else if char_at text p \<noteq> None \<and> char_at text p \<noteq> Some CHR ''$''
           \<and> char_at text (p + 1) = Some CHR ''$'' \<and> letters 4 text (p + 2) \<noteq> []
      then Some (p + 2, letters 4 text (p + 2), p + 2 + length (letters 4 text (p + 2)))
      else None)"

text \<open>\<^verbatim>\<open>CRYPTO_REGEX = "[$]{2}([a-zA-Z]{1,9})"\<close>\<close>

definition CRYPTO_REGEX :: pattern where
  "CRYPTO_REGEX text p =
     (if char_at text p = Some CHR ''$'' \<and> char_at text (p + 1) = Some CHR ''$''
         \<and> letters 9 text (p + 2) \<noteq> []
      then Some (p + 2, letters 9 text (p + 2), p + 2 + length (letters 9 text (p + 2)))
      else None)"

text \<open>\<^verbatim>\<open>SYMBOL_REGEX = "[$]([a-zA-Z]{1,4})"\<close> (functions.py)\<close>

definition SYMBOL_REGEX :: pattern where
  "SYMBOL_REGEX text p =
     (if char_at text p = Some CHR ''$'' \<and> letters 4 text (p + 1) \<noteq> []
      then Some (p + 1, letters 4 text (p + 1), p + 1 + length (letters 4 text (p + 1)))
      else None)"

text \<open>
  The scan of \<^verbatim>\<open>re.findall\<close>: the leftmost match at or after \<open>p\<close> is taken, and the scan
  goes on where it ended (one position further after an empty match). \<open>finditer\<close> keeps,
  with each group, the position where it starts; \<open>re_findall\<close> is what Python returns.
\<close>

function finditer :: "pattern \<Rightarrow> string \<Rightarrow> nat \<Rightarrow> (nat \<times> string) list" where
  "finditer m text p =
     (if length text < p then []
      else (case m text p of
              None \<Rightarrow> finditer m text (Suc p)
            | Some (g, s, e) \<Rightarrow> (g, s) # finditer m text (max e (Suc p))))"
  by pat_completeness auto
termination
  by (relation "measure (\<lambda>(m, text, p). Suc (length text) - p)") auto

definition re_findall :: "pattern \<Rightarrow> string \<Rightarrow> string list" where
  "re_findall m text = map snd (finditer m text 0)"

section \<open>Symbols and the extractor (symbol\_router.py)\<close>

text \<open>
  \<open>Stock s\<close> and \<open>Coin s\<close> are instances of the two classes, with \<open>s\<close> their field
  \<open>symbol\<close>; \<open>Other\<close> stands for any object of another class, which a Python list may
  hold as well.
\<close>

datatype symbol = Stock string | Coin string | Other string

text \<open>
  The two reference columns the router reads: \<^verbatim>\<open>self.stock.symbol_list["symbol"].values\<close>
  and \<^verbatim>\<open>self.crypto.symbol_list["symbol"].values\<close>.
\<close>

record router =
  stock_symbols :: "string list"
  crypto_symbols :: "string list"

text \<open>
  \<open>Router.find_symbols\<close>. Python iterates a \<open>set\<close> in an order of its own: \<open>py_set\<close> is
  the list in which \<^verbatim>\<open>set(xs)\<close> hands out its elements.
\<close>

definition find_symbols :: "(string list \<Rightarrow> string list) \<Rightarrow> router \<Rightarrow> string \<Rightarrow> symbol list" where
  "find_symbols py_set self text =
     (let symbols = [];
          stocks = py_set (re_findall STOCK_REGEX text);
          symbols = fold (\<lambda>stock symbols.
                       if upper stock \<in> set (stock_symbols self) then symbols @ [Stock stock]
                       else symbols) stocks symbols;
          coins = py_set (re_findall CRYPTO_REGEX text);
          symbols = fold (\<lambda>coin symbols.
                       if lower coin \<in> set (crypto_symbols self) then symbols @ [Coin (lower coin)]
                       else symbols) coins symbols
      in symbols)"

text \<open>\<open>Symbol.find_symbols\<close> of functions.py: \<^verbatim>\<open>list(set(re.findall(SYMBOL_REGEX, text)))\<close>.\<close>

definition Symbol_find_symbols :: "(string list \<Rightarrow> string list) \<Rightarrow> string \<Rightarrow> string list" where
  "Symbol_find_symbols py_set text = py_set (re_findall SYMBOL_REGEX text)"




section \<open>The router's batch operations (symbol\_router.py)\<close>

text \<open>
  The two backend clients (\<open>IEX_Symbol\<close>, \<open>cg_Crypto\<close>) are not part of the sources; they
  are taken as parameters. A call answers with a text and may change the world \<open>'w\<close>
  (network, the clients' caches).
\<close>

type_synonym 'w backend = "symbol \<Rightarrow> 'w \<Rightarrow> string \<times> 'w"

record 'w clients =
  stock_price_reply :: "'w backend"
  stock_dividend_reply :: "'w backend"
  stock_news_reply :: "'w backend"
  stock_info_reply :: "'w backend"
  stock_stat_reply :: "'w backend"
  crypto_price_reply :: "'w backend"
  crypto_info_reply :: "'w backend"
  crypto_stat_reply :: "'w backend"

text \<open>A branch that answers with a fixed text and calls no backend.\<close>

definition fixed_reply :: "string \<Rightarrow> 'w backend" where
  "fixed_reply msg symbol w = (msg, w)"

text \<open>
  The loop the five operations share: a \<open>Stock\<close> goes to the first backend, a \<open>Coin\<close> to
  the second, anything else is only printed and nothing is appended.
\<close>

fun reply_loop :: "'w backend \<Rightarrow> 'w backend \<Rightarrow> symbol list \<Rightarrow> string list \<Rightarrow> 'w \<Rightarrow> string list \<times> 'w" where
  "reply_loop on_stock on_coin [] replies w = (replies, w)"
| "reply_loop on_stock on_coin (Stock s # symbols) replies w =
     (case on_stock (Stock s) w of (r, w') \<Rightarrow> reply_loop on_stock on_coin symbols (replies @ [r]) w')"
| "reply_loop on_stock on_coin (Coin s # symbols) replies w =
     (case on_coin (Coin s) w of (r, w') \<Rightarrow> reply_loop on_stock on_coin symbols (replies @ [r]) w')"
| "reply_loop on_stock on_coin (Other s # symbols) replies w =
     reply_loop on_stock on_coin symbols replies w"

definition price_reply :: "'w clients \<Rightarrow> symbol list \<Rightarrow> 'w \<Rightarrow> string list \<times> 'w" where
  "price_reply c symbols w = reply_loop (stock_price_reply c) (crypto_price_reply c) symbols [] w"

definition dividend_reply :: "'w clients \<Rightarrow> symbol list \<Rightarrow> 'w \<Rightarrow> string list \<times> 'w" where
  "dividend_reply c symbols w =
     reply_loop (stock_dividend_reply c) (fixed_reply ''Cryptocurrencies do no have Dividends.'') symbols [] w"

definition news_reply :: "'w clients \<Rightarrow> symbol list \<Rightarrow> 'w \<Rightarrow> string list \<times> 'w" where
  "news_reply c symbols w =
     reply_loop (stock_news_reply c) (fixed_reply ''News is not yet supported for cryptocurrencies.'') symbols [] w"

definition info_reply :: "'w clients \<Rightarrow> symbol list \<Rightarrow> 'w \<Rightarrow> string list \<times> 'w" where
  "info_reply c symbols w = reply_loop (stock_info_reply c) (crypto_info_reply c) symbols [] w"

definition stat_reply :: "'w clients \<Rightarrow> symbol list \<Rightarrow> 'w \<Rightarrow> string list \<times> 'w" where
  "stat_reply c symbols w = reply_loop (stock_stat_reply c) (crypto_stat_reply c) symbols [] w"

text \<open>
  What one pass of the loop body does with one symbol: the reply it appends, if any, and the
  world after it.
\<close>

fun dispatch :: "'w backend \<Rightarrow> 'w backend \<Rightarrow> symbol \<Rightarrow> 'w \<Rightarrow> string option \<times> 'w" where
  "dispatch on_stock on_coin (Stock s) w = (case on_stock (Stock s) w of (r, w') \<Rightarrow> (Some r, w'))"
| "dispatch on_stock on_coin (Coin s) w = (case on_coin (Coin s) w of (r, w') \<Rightarrow> (Some r, w'))"
| "dispatch on_stock on_coin (Other s) w = (None, w)"

text \<open>The five batch operations, and the reply each of them gives for one symbol.\<close>

datatype operation = Price | Dividend | News | Info | Statistics

fun batch :: "operation \<Rightarrow> 'w clients \<Rightarrow> symbol list \<Rightarrow> 'w \<Rightarrow> string list \<times> 'w" where
  "batch Price = price_reply"
| "batch Dividend = dividend_reply"
| "batch News = news_reply"
| "batch Info = info_reply"
| "batch Statistics = stat_reply"

fun one_reply :: "operation \<Rightarrow> 'w clients \<Rightarrow> symbol \<Rightarrow> 'w \<Rightarrow> string option \<times> 'w" where
  "one_reply Price c = dispatch (stock_price_reply c) (crypto_price_reply c)"
| "one_reply Dividend c =
     dispatch (stock_dividend_reply c) (fixed_reply ''Cryptocurrencies do no have Dividends.'')"
| "one_reply News c =
     dispatch (stock_news_reply c) (fixed_reply ''News is not yet supported for cryptocurrencies.'')"
| "one_reply Info c = dispatch (stock_info_reply c) (crypto_info_reply c)"
| "one_reply Statistics c = dispatch (stock_stat_reply c) (crypto_stat_reply c)"

fun is_Stock :: "symbol \<Rightarrow> bool" where
  "is_Stock (Stock s) = True"
| "is_Stock _ = False"

fun is_Coin :: "symbol \<Rightarrow> bool" where
  "is_Coin (Coin s) = True"
| "is_Coin _ = False"

text \<open>A small concrete pair of clients, used to run the router: the world counts the calls.\<close>

definition counting_backend :: "string \<Rightarrow> nat backend" where
  "counting_backend tag symbol w =
     (tag @ (case symbol of Stock s \<Rightarrow> s | Coin s \<Rightarrow> s | Other s \<Rightarrow> s) @ replicate w CHR ''+'', Suc w)"

definition counting_clients :: "nat clients" where
  "counting_clients =
     \<lparr>stock_price_reply = counting_backend ''stock price '',
      stock_dividend_reply = counting_backend ''stock dividend '',
      stock_news_reply = counting_backend ''stock news '',
      stock_info_reply = counting_backend ''stock info '',
      stock_stat_reply = counting_backend ''stock stat '',
      crypto_price_reply = counting_backend ''coin price '',
      crypto_info_reply = counting_backend ''coin info '',
      crypto_stat_reply = counting_backend ''coin stat ''\<rparr>"

section \<open>Fuzzy scoring (the library fuzzywuzzy)\<close>

text \<open>
  \<open>search_symbols\<close> calls \<^verbatim>\<open>fuzz.ratio\<close> and \<^verbatim>\<open>fuzz.partial_ratio\<close> of the library
  fuzzywuzzy. The search is defined over any pair of scorers; the theorems about it hold
  for all of them.
\<close>

record fuzz =
  ratio :: "string \<Rightarrow> string \<Rightarrow> int"
  partial_ratio :: "string \<Rightarrow> string \<Rightarrow> int"

text \<open>
  To run the search on concrete tables, the two scorers as the library computes them with
  Python's \<^verbatim>\<open>difflib.SequenceMatcher\<close> (its pure-Python mode; strings shorter than 200
  characters, for which difflib treats no character as junk). \<open>find_longest_match a b\<close> is
  the longest common block, the earliest in \<open>a\<close> and then the earliest in \<open>b\<close>;
  \<open>matching_blocks\<close> recurs to the left and to the right of it.
\<close>

fun common_prefix :: "string \<Rightarrow> string \<Rightarrow> nat" where
  "common_prefix (x # xs) (y # ys) = (if x = y then Suc (common_prefix xs ys) else 0)"
| "common_prefix _ _ = 0"

definition find_longest_match :: "string \<Rightarrow> string \<Rightarrow> nat \<times> nat \<times> nat" where
  "find_longest_match a b =
     fold (\<lambda>(i, j) (besti, bestj, bestsize).
             let k = common_prefix (drop i a) (drop j b)
             in if bestsize < k then (i, j, k) else (besti, bestj, bestsize))
          (List.product [0..<length a] [0..<length b]) (0, 0, 0)"

function matching_blocks :: "string \<Rightarrow> string \<Rightarrow> (nat \<times> nat \<times> nat) list" where
  "matching_blocks a b =
     (case find_longest_match a b of (i, j, k) \<Rightarrow>
        if k = 0 then []
        else matching_blocks (take i a) (take j b) @ [(i, j, k)] @
             map (\<lambda>(i', j', k'). (i + k + i', j + k + j', k'))
               (matching_blocks (drop (i + k) a) (drop (j + k) b)))"
  by pat_completeness auto
termination
proof (relation "measure (\<lambda>(a, b). length a + length b)")
  show "wf (measure (\<lambda>(a, b). length a + length b))" by simp
next
  have inv: "case find_longest_match a b of (i, j, k) \<Rightarrow> k = 0 \<or> (i < length a \<and> j < length b)"
    for a b
    unfolding find_longest_match_def
    by (rule fold_invariant [where Q = "\<lambda>(i, j). i < length a \<and> j < length b"])
       (auto simp: Let_def split: if_splits)
  {
    fix a b :: string and y i j k
    assume "(i, y) = find_longest_match a b" "(j, k) = y" "k \<noteq> 0"
    then have f: "find_longest_match a b = (i, j, k)" by simp
    from inv[of a b] f \<open>k \<noteq> 0\<close> have ij: "i < length a" "j < length b" by simp_all
    from ij show "((take i a, take j b), a, b) \<in> measure (\<lambda>(a, b). length a + length b)"
      by simp
    from ij \<open>k \<noteq> 0\<close>
    show "((drop (i + k) a, drop (j + k) b), a, b) \<in> measure (\<lambda>(a, b). length a + length b)"
      by simp
  }
qed

text \<open>\<^verbatim>\<open>utils.intr(100 * (2.0 * m / t))\<close>: Python 3 rounds a half to the even neighbour.\<close>

definition intr :: "nat \<Rightarrow> nat \<Rightarrow> int" where
  "intr m t =
     (let n = 200 * m; q = n div t; r = n mod t
      in int (if 2 * r < t then q else if t < 2 * r then q + 1 else if even q then q else q + 1))"

definition matches :: "string \<Rightarrow> string \<Rightarrow> nat" where
  "matches a b = sum_list (map (\<lambda>(i, j, k). k) (matching_blocks a b))"

text \<open>
  \<^verbatim>\<open>fuzz.ratio\<close>, with its decorators: equal strings score 100, an empty string scores 0.
\<close>

definition fuzz_ratio :: "string \<Rightarrow> string \<Rightarrow> int" where
  "fuzz_ratio s1 s2 =
     (if s1 = s2 then 100
      else if s1 = [] \<or> s2 = [] then 0
      else intr (matches s1 s2) (length s1 + length s2))"

text \<open>
  \<^verbatim>\<open>fuzz.partial_ratio\<close>: the shorter string is compared with the window of the longer
  one that each matching block (and the closing block of size 0) aligns it with; a window
  with ratio above 0.995 gives 100 at once, otherwise the best window counts.
\<close>

definition fuzz_partial_ratio :: "string \<Rightarrow> string \<Rightarrow> int" where
  "fuzz_partial_ratio s1 s2 =
     (if s1 = s2 then 100
      else if s1 = [] \<or> s2 = [] then 0
      else
        let shorter = (if length s1 \<le> length s2 then s1 else s2);
            longer = (if length s1 \<le> length s2 then s2 else s1);
            blocks = matching_blocks shorter longer @ [(length shorter, length longer, 0)];
            scores = map (\<lambda>(i, j, k).
                        let long_start = j - i;
                            long_substr = take (length shorter) (drop long_start longer)
                        in (matches shorter long_substr, length shorter + length long_substr))
                       blocks
        in if list_ex (\<lambda>(m, t). 995 * t < 2000 * m) scores then 100
           else fold max (map (\<lambda>(m, t). intr m t) scores) 0)"

definition fuzzywuzzy :: fuzz where
  "fuzzywuzzy = \<lparr>ratio = fuzz_ratio, partial_ratio = fuzz_partial_ratio\<rparr>"

section \<open>The reference table and the fuzzy search (functions.py)\<close>

text \<open>
  The table is a pandas DataFrame. \<open>get_symbol_list\<close> builds it with the columns of the
  FINRA file and the column \<open>Description\<close>; \<open>search_symbols\<close> adds the column \<open>Match\<close>.
  A row has no \<open>Match\<close> cell until that column is assigned.
\<close>

record row =
  Symbol :: string
  Issue_Name :: string
  Primary_Listing_Mkt :: string
  Description :: string
  Match :: "int option"

record frame =
  columns :: "string list"
  rows :: "row list"

definition Match_value :: "row \<Rightarrow> int" where
  "Match_value x = (case Match x of Some v \<Rightarrow> v | None \<Rightarrow> 0)"

text \<open>\<^verbatim>\<open>symbols["Match"] = symbols.apply(f, axis=1)\<close>\<close>

definition setitem_Match :: "(row \<Rightarrow> int) \<Rightarrow> frame \<Rightarrow> frame" where
  "setitem_Match f df =
     \<lparr>columns = (if ''Match'' \<in> set (columns df) then columns df else columns df @ [''Match'']),
      rows = map (\<lambda>x. x\<lparr>Match := Some (f x)\<rparr>) (rows df)\<rparr>"

text \<open>
  \<^verbatim>\<open>symbols.sort_values(by="Match", ascending=False, inplace=True)\<close>: descending scores,
  rows of equal score in the order they had (the tie-break the specification fixes).
\<close>

definition sort_values_Match :: "frame \<Rightarrow> frame" where
  "sort_values_Match df = df\<lparr>rows := sort_key (\<lambda>x. - Match_value x) (rows df)\<rparr>"

definition head :: "nat \<Rightarrow> frame \<Rightarrow> frame" where
  "head n df = df\<lparr>rows := take n (rows df)\<rparr>"

text \<open>
  The world outside the object: the clock (\<^verbatim>\<open>datetime.now()\<close>, in microseconds), the rows
  that \<^verbatim>\<open>LIST_URL\<close> serves at the moment (symbol, issue name, listing market; header and
  trailer lines removed), and the number of downloads made so far.
\<close>

record world =
  now :: int
  served :: "(string \<times> string \<times> string) list"
  fetches :: nat

definition hours :: "int \<Rightarrow> int" where
  "hours h = h * 3600000000"

definition get_symbol_list :: "world \<Rightarrow> (frame \<times> int) \<times> world" where
  "get_symbol_list w =
     ((\<lparr>columns = [''Symbol'', ''Issue_Name'', ''Primary_Listing_Mkt'', ''Description''],
        rows = map (\<lambda>(sym, name, mkt).
                  \<lparr>Symbol = sym, Issue_Name = name, Primary_Listing_Mkt = mkt,
                   Description = sym @ '': '' @ name, Match = None\<rparr>) (served w)\<rparr>,
       now w),
      w\<lparr>fetches := Suc (fetches w)\<rparr>)"

text \<open>The object of class \<open>Symbol\<close>, with the class attribute \<open>searched_symbols\<close>.\<close>

record Symbol_state =
  symbol_list :: frame
  symbol_ts :: int
  searched_symbols :: "string \<rightharpoonup> (string \<times> string) list"

definition Symbol_init :: "world \<Rightarrow> Symbol_state \<times> world" where
  "Symbol_init w =
     (case get_symbol_list w of ((lst, ts), w') \<Rightarrow>
        (\<lparr>symbol_list = lst, symbol_ts = ts, searched_symbols = Map.empty\<rparr>, w'))"

text \<open>Line 56: the test that decides whether the list is fetched again.\<close>

definition refresh_due :: "world \<Rightarrow> Symbol_state \<Rightarrow> bool" where
  "refresh_due w self = (symbol_ts self - now w > hours 3)"

text \<open>
  \<open>search_symbols\<close>. The local \<open>symbols\<close> is the object \<open>self.symbol_list\<close> itself
  (line 59), so the assignments of the column and the in-place sorts change the stored
  table; only \<open>head(10)\<close> makes a new one.
\<close>

definition search_symbols ::
    "fuzz \<Rightarrow> string \<Rightarrow> world \<times> Symbol_state \<Rightarrow> (string \<times> string) list \<times> world \<times> Symbol_state" where
  "search_symbols fz search ws =
     (case ws of (w, self) \<Rightarrow>
       (case searched_symbols self search of
          Some cached \<Rightarrow> (cached, w, self)
        | None \<Rightarrow>
           let (w, self) =
                 (if refresh_due w self
                  then (case get_symbol_list w of ((lst, ts), w') \<Rightarrow>
                          (w', self\<lparr>symbol_list := lst, symbol_ts := ts\<rparr>))
                  else (w, self));
               self = self\<lparr>symbol_list :=
                        setitem_Match (\<lambda>x. ratio fz (lower search) (lower (Symbol x))) (symbol_list self)\<rparr>;
               self = self\<lparr>symbol_list := sort_values_Match (symbol_list self)\<rparr>;
               self =
                 (if sum_list (map Match_value (rows (head 5 (symbol_list self)))) < 300
                  then
                    let self = self\<lparr>symbol_list :=
                                 setitem_Match (\<lambda>x. partial_ratio fz (lower search) (lower (Issue_Name x)))
                                   (symbol_list self)\<rparr>
                    in self\<lparr>symbol_list := sort_values_Match (symbol_list self)\<rparr>
                  else self);
               symbols = head 10 (symbol_list self);
               symbol_list = zip (map Symbol (rows symbols)) (map Description (rows symbols));
               self = self\<lparr>searched_symbols := (searched_symbols self)(search \<mapsto> symbol_list)\<rparr>
           in (symbol_list, w, self)))"

text \<open>
  The states the object can be in: the one \<open>__init__\<close> makes, and those a call of
  \<open>search_symbols\<close> leaves, the world changing at will between calls.
\<close>

inductive reachable :: "fuzz \<Rightarrow> Symbol_state \<Rightarrow> bool" for fz :: fuzz where
  init: "reachable fz (fst (Symbol_init w))"
| search: "reachable fz self \<Longrightarrow> reachable fz (snd (snd (search_symbols fz search (w, self))))"

text \<open>The table a call works on: the stored one, or the fresh one when line 56 asks for it.\<close>

definition table_searched :: "world \<Rightarrow> Symbol_state \<Rightarrow> frame" where
  "table_searched w self =
     (if refresh_due w self then fst (fst (get_symbol_list w)) else symbol_list self)"

text \<open>
  The ranking in the words of the specification (section 4.3, steps 3 to 5), on rows
  paired with their score: score every row by the similarity of the lower-cased query and
  the lower-cased ticker and sort by descending score; if the five best scores sum to less
  than 300, score every row again by the partial similarity of the query and the issue
  name, and sort again. It is compared with \<open>search_symbols\<close> below.
\<close>

definition ticker_score :: "fuzz \<Rightarrow> string \<Rightarrow> row \<Rightarrow> int" where
  "ticker_score fz query x = ratio fz (lower query) (lower (Symbol x))"

definition name_score :: "fuzz \<Rightarrow> string \<Rightarrow> row \<Rightarrow> int" where
  "name_score fz query x = partial_ratio fz (lower query) (lower (Issue_Name x))"

definition sort_descending :: "(int \<times> row) list \<Rightarrow> (int \<times> row) list" where
  "sort_descending scored = sort_key (\<lambda>(score, x). - score) scored"

definition spec_ranking :: "fuzz \<Rightarrow> string \<Rightarrow> row list \<Rightarrow> (int \<times> row) list" where
  "spec_ranking fz query table =
     (let by_ticker = sort_descending (map (\<lambda>x. (ticker_score fz query x, x)) table)
      in if sum_list (map fst (take 5 by_ticker)) < 300
         then sort_descending (map (\<lambda>(score, x). (name_score fz query x, x)) by_ticker)
         else by_ticker)"


text \<open>Concrete worlds and tables, used to run the search.\<close>

definition two_rows :: world where
  "two_rows = \<lparr>now = 0, served = [(''ZZZZ'', ''aapl'', ''N''), (''AAPL'', ''xyz'', ''Q'')], fetches = 0\<rparr>"

definition twelve_rows :: world where
  "twelve_rows =
     \<lparr>now = 0,
      served = [(''AB'', ''Abel'', ''N''), (''A'', ''Agilent'', ''N''), (''AC'', ''Acme'', ''Q''),
                (''AD'', ''Adder'', ''Q''), (''B'', ''Barnes'', ''N''), (''C'', ''Citi'', ''N''),
                (''D'', ''Dominion'', ''N''), (''E'', ''Eni'', ''N''), (''F'', ''Ford'', ''N''),
                (''G'', ''Genpact'', ''N''), (''H'', ''Hyatt'', ''N''), (''K'', ''Kellogg'', ''N'')],
      fetches = 0\<rparr>"

definition two_rows_state :: Symbol_state where
  "two_rows_state = fst (Symbol_init two_rows)"

definition two_rows_world :: world where
  "two_rows_world = snd (Symbol_init two_rows)"

text \<open>Four hours after the download, with a different file on the server.\<close>

definition two_rows_later :: world where
  "two_rows_later = two_rows_world\<lparr>now := hours 4, served := [(''NEW'', ''New listing'', ''N'')]\<rparr>"

definition twelve_rows_state :: Symbol_state where
  "twelve_rows_state = fst (Symbol_init twelve_rows)"

definition twelve_rows_world :: world where
  "twelve_rows_world = snd (Symbol_init twelve_rows)"


section \<open>The router's batch operations keep order and length\<close>

lemma reply_loop_acc:
  "reply_loop f g xs acc w = (acc @ fst (reply_loop f g xs [] w), snd (reply_loop f g xs [] w))"
proof (induction xs arbitrary: acc w)
  case Nil
  show ?case by simp
next
  case (Cons x xs)
  show ?case
  proof (cases x)
    case (Stock s)
    obtain r w' where rw: "f (Stock s) w = (r, w')" by (cases "f (Stock s) w")
    show ?thesis
      using Cons.IH[of "acc @ [r]" w'] Cons.IH[of "[r]" w'] by (simp add: Stock rw)
  next
    case (Coin s)
    obtain r w' where rw: "g (Coin s) w = (r, w')" by (cases "g (Coin s) w")
    show ?thesis
      using Cons.IH[of "acc @ [r]" w'] Cons.IH[of "[r]" w'] by (simp add: Coin rw)
  next
    case (Other s)
    show ?thesis using Cons.IH[of acc w] by (simp add: Other)
  qed
qed

lemma reply_loop_Cons_valid:
  assumes "is_Stock x \<or> is_Coin x"
  shows "reply_loop f g (x # xs) [] w =
         (the (fst (dispatch f g x w)) # fst (reply_loop f g xs [] (snd (dispatch f g x w))),
          snd (reply_loop f g xs [] (snd (dispatch f g x w))))"
    and "fst (dispatch f g x w) \<noteq> None"
proof -
  show "fst (dispatch f g x w) \<noteq> None"
    using assms by (cases x) (auto split: prod.splits)
  show "reply_loop f g (x # xs) [] w =
         (the (fst (dispatch f g x w)) # fst (reply_loop f g xs [] (snd (dispatch f g x w))),
          snd (reply_loop f g xs [] (snd (dispatch f g x w))))"
  proof (cases x)
    case (Stock s)
    obtain r w' where rw: "f (Stock s) w = (r, w')" by (cases "f (Stock s) w")
    show ?thesis
      using reply_loop_acc[of f g xs "[r]" w'] by (simp add: Stock rw)
  next
    case (Coin s)
    obtain r w' where rw: "g (Coin s) w = (r, w')" by (cases "g (Coin s) w")
    show ?thesis
      using reply_loop_acc[of f g xs "[r]" w'] by (simp add: Coin rw)
  next
    case (Other s)
    with assms show ?thesis by simp
  qed
qed

lemma reply_loop_length_le:
  "length (fst (reply_loop f g xs [] w)) \<le> length xs"
proof (induction xs arbitrary: w)
  case Nil
  show ?case by simp
next
  case (Cons x xs)
  show ?case
  proof (cases "is_Stock x \<or> is_Coin x")
    case True
    show ?thesis using Cons.IH[of "snd (dispatch f g x w)"]
      by (simp add: reply_loop_Cons_valid(1)[OF True])
  next
    case False
    then obtain s where "x = Other s" by (cases x) auto
    then show ?thesis using Cons.IH[of w] by simp
  qed
qed

lemma reply_loop_length_eq:
  "\<forall>x \<in> set xs. is_Stock x \<or> is_Coin x \<Longrightarrow> length (fst (reply_loop f g xs [] w)) = length xs"
proof (induction xs arbitrary: w)
  case Nil
  show ?case by simp
next
  case (Cons x xs)
  then have v: "is_Stock x \<or> is_Coin x" and r: "\<forall>x \<in> set xs. is_Stock x \<or> is_Coin x" by auto
  show ?case using Cons.IH[OF r] by (simp add: reply_loop_Cons_valid(1)[OF v])
qed

lemma reply_loop_nth:
  "\<forall>x \<in> set xs. is_Stock x \<or> is_Coin x \<Longrightarrow> i < length xs \<Longrightarrow>
   Some (fst (reply_loop f g xs [] w) ! i) =
     fst (dispatch f g (xs ! i) (snd (reply_loop f g (take i xs) [] w)))"
proof (induction xs arbitrary: w i)
  case Nil
  then show ?case by simp
next
  case (Cons x xs)
  then have v: "is_Stock x \<or> is_Coin x" and r: "\<forall>x \<in> set xs. is_Stock x \<or> is_Coin x" by auto
  show ?case
  proof (cases i)
    case 0
    show ?thesis using reply_loop_Cons_valid(2)[OF v, of f g w]
      by (simp add: 0 reply_loop_Cons_valid(1)[OF v])
  next
    case (Suc j)
    with Cons.prems have j: "j < length xs" by simp
    show ?thesis using Cons.IH[OF r j, of "snd (dispatch f g x w)"]
      by (simp add: Suc reply_loop_Cons_valid(1)[OF v])
  qed
qed

lemma batch_is_loop:
  "\<exists>f g. (\<forall>xs w. batch operation c xs w = reply_loop f g xs [] w) \<and> one_reply operation c = dispatch f g"
proof (cases operation)
  case Price
  show ?thesis unfolding Price batch.simps one_reply.simps price_reply_def by blast
next
  case Dividend
  show ?thesis unfolding Dividend batch.simps one_reply.simps dividend_reply_def by blast
next
  case News
  show ?thesis unfolding News batch.simps one_reply.simps news_reply_def by blast
next
  case Info
  show ?thesis unfolding Info batch.simps one_reply.simps info_reply_def by blast
next
  case Statistics
  show ?thesis unfolding Statistics batch.simps one_reply.simps stat_reply_def by blast
qed

text \<open>
  C9. For each of the five batch operations the list of replies is no longer than the list
  of symbols; when every symbol is a Stock or a Coin it has the same length, and its i-th
  entry is the reply the operation gives for the i-th symbol, computed in the world left by
  the symbols before it.
\<close>

theorem batch_replies_in_input_order:
  "length (fst (batch operation c symbols w)) \<le> length symbols \<and>
   ((\<forall>x \<in> set symbols. is_Stock x \<or> is_Coin x) \<longrightarrow>
      length (fst (batch operation c symbols w)) = length symbols \<and>
      (\<forall>i < length symbols.
         Some (fst (batch operation c symbols w) ! i) =
           fst (one_reply operation c (symbols ! i) (snd (batch operation c (take i symbols) w)))))"
proof -
  obtain f g where b: "\<And>xs w. batch operation c xs w = reply_loop f g xs [] w"
    and o: "one_reply operation c = dispatch f g"
    using batch_is_loop by blast
  have 1: "length (fst (reply_loop f g symbols [] w)) \<le> length symbols"
    by (rule reply_loop_length_le)
  have 2: "length (fst (reply_loop f g symbols [] w)) = length symbols"
    if "\<forall>x \<in> set symbols. is_Stock x \<or> is_Coin x"
    using that by (rule reply_loop_length_eq)
  have 3: "Some (fst (reply_loop f g symbols [] w) ! i) =
           fst (dispatch f g (symbols ! i) (snd (reply_loop f g (take i symbols) [] w)))"
    if "\<forall>x \<in> set symbols. is_Stock x \<or> is_Coin x" "i < length symbols" for i
    using that by (rule reply_loop_nth)
  show ?thesis
    unfolding b o using 1 2 3 by simp
qed

theorem batch_replies_in_input_order_witness:
  "list_all (\<lambda>x. is_Stock x \<or> is_Coin x) [Stock ''tsla'', Coin ''btc''] \<and>
   fst (batch Dividend counting_clients [Stock ''tsla'', Coin ''btc''] 0) =
     [''stock dividend tsla'', ''Cryptocurrencies do no have Dividends.''] \<and>
   fst (one_reply Dividend counting_clients (Coin ''btc'')
         (snd (batch Dividend counting_clients (take 1 [Stock ''tsla'', Coin ''btc'']) 0))) =
     Some (fst (batch Dividend counting_clients [Stock ''tsla'', Coin ''btc''] 0) ! 1)"
  using batch_replies_in_input_order [of Dividend counting_clients "[Stock ''tsla'', Coin ''btc'']" 0]
  by (simp add: dividend_reply_def counting_clients_def counting_backend_def fixed_reply_def)

section \<open>The extractor\<close>

lemma fold_append_if:
  "fold (\<lambda>x acc. if P x then acc @ [F x] else acc) xs acc = acc @ map F (filter P xs)"
  by (induction xs arbitrary: acc) auto

lemma find_symbols_eq:
  "find_symbols py_set self text =
     map Stock (filter (\<lambda>s. upper s \<in> set (stock_symbols self)) (py_set (re_findall STOCK_REGEX text))) @
     map (\<lambda>c. Coin (lower c))
       (filter (\<lambda>c. lower c \<in> set (crypto_symbols self)) (py_set (re_findall CRYPTO_REGEX text)))"
  unfolding find_symbols_def Let_def fold_append_if by simp

text \<open>
  C10. The list returned by \<open>Router.find_symbols\<close> is a run of Stocks followed by a run of
  Coins, whatever the text and whatever the order in which the sets are iterated: no Coin
  stands before a Stock.
\<close>

theorem find_symbols_stocks_before_coins:
  "(\<exists>stocks coins. find_symbols py_set self text = stocks @ coins
       \<and> list_all is_Stock stocks \<and> list_all is_Coin coins) \<and>
   (\<forall>i j. i < j \<and> j < length (find_symbols py_set self text)
       \<longrightarrow> \<not> (is_Coin (find_symbols py_set self text ! i)
              \<and> is_Stock (find_symbols py_set self text ! j)))"
proof -
  define A where "A = map Stock (filter (\<lambda>s. upper s \<in> set (stock_symbols self))
                        (py_set (re_findall STOCK_REGEX text)))"
  define B where "B = map (\<lambda>c. Coin (lower c)) (filter (\<lambda>c. lower c \<in> set (crypto_symbols self))
                        (py_set (re_findall CRYPTO_REGEX text)))"
  have r: "find_symbols py_set self text = A @ B"
    unfolding A_def B_def by (rule find_symbols_eq)
  have a: "list_all is_Stock A" unfolding A_def by (simp add: list_all_iff)
  have b: "list_all is_Coin B" unfolding B_def by (simp add: list_all_iff)
  have na: "\<not> is_Coin x" if "x \<in> set A" for x
    using that unfolding A_def by auto
  have nb: "\<not> is_Stock x" if "x \<in> set B" for x
    using that unfolding B_def by auto
  have "\<not> (is_Coin ((A @ B) ! i) \<and> is_Stock ((A @ B) ! j))" if "i < j" "j < length (A @ B)" for i j
  proof
    assume c: "is_Coin ((A @ B) ! i) \<and> is_Stock ((A @ B) ! j)"
    have "j < length A"
    proof (rule ccontr)
      assume "\<not> j < length A"
      then have "(A @ B) ! j \<in> set B" using that(2) by (simp add: nth_append)
      with nb c show False by blast
    qed
    with that(1) have "i < length A" by simp
    then have "(A @ B) ! i \<in> set A" by (simp add: nth_append)
    with na c show False by blast
  qed
  with r a b show ?thesis by auto
qed

theorem find_symbols_stocks_before_coins_witness:
  "find_symbols remdups \<lparr>stock_symbols = [''TSLA''], crypto_symbols = [''btc'']\<rparr>
      ''$$btc then $tsla'' = [Stock ''tsla'', Coin ''btc''] \<and>
   (0::nat) < 1 \<and> 1 < length (find_symbols remdups \<lparr>stock_symbols = [''TSLA''], crypto_symbols = [''btc'']\<rparr>
      ''$$btc then $tsla'') \<and>
   \<not> (is_Coin (find_symbols remdups \<lparr>stock_symbols = [''TSLA''], crypto_symbols = [''btc'']\<rparr>
      ''$$btc then $tsla'' ! 0) \<and>
      is_Stock (find_symbols remdups \<lparr>stock_symbols = [''TSLA''], crypto_symbols = [''btc'']\<rparr>
      ''$$btc then $tsla'' ! 1))"
proof -
  have e: "find_symbols remdups \<lparr>stock_symbols = [''TSLA''], crypto_symbols = [''btc'']\<rparr>
      ''$$btc then $tsla'' = [Stock ''tsla'', Coin ''btc'']"
    by code_simp
  show ?thesis
    using find_symbols_stocks_before_coins
      [of remdups "\<lparr>stock_symbols = [''TSLA''], crypto_symbols = [''btc'']\<rparr>" "''$$btc then $tsla''"]
    unfolding e by simp
qed

text \<open>
  C3. Two mentions of one ticker that differ in letter case are both returned: the set
  removes duplicates before the case is normalised. (Evaluated with the sets iterated in
  order of first occurrence.)
\<close>

theorem find_symbols_case_duplicates:
  "find_symbols remdups \<lparr>stock_symbols = [''TSLA''], crypto_symbols = [''btc'']\<rparr>
      ''$tsla $TSLA $$btc $$BTC'' = [Stock ''tsla'', Stock ''TSLA'', Coin ''btc'', Coin ''btc''] \<and>
   upper ''tsla'' = upper ''TSLA'' \<and>
   Symbol_find_symbols remdups ''$tsla $TSLA'' = [''tsla'', ''TSLA'']"
  by code_simp

text \<open>
  C5. In \<open>$a$b\<close> the second dollar sign is not preceded by a dollar sign and is followed by
  a letter, yet \<open>STOCK_REGEX\<close> extracts only \<open>a\<close>: the match of \<open>$a\<close> has consumed the
  character that the second match would need in front of its dollar sign. The pattern of
  functions.py extracts both.
\<close>

theorem stock_regex_misses_adjacent_ticker:
  "re_findall STOCK_REGEX ''$a$b'' = [''a''] \<and>
   find_symbols remdups \<lparr>stock_symbols = [''A'', ''B''], crypto_symbols = []\<rparr> ''$a$b'' = [Stock ''a''] \<and>
   re_findall SYMBOL_REGEX ''$a$b'' = [''a'', ''b'']"
  by code_simp

section \<open>The two patterns do not cross-match\<close>





declare finditer.simps [simp del]
















section \<open>The fuzzy search\<close>

lemma insort_key_map: "insort_key f (g x) (map g xs) = map g (insort_key (\<lambda>a. f (g a)) x xs)"
  by (induction xs) auto

lemma sort_key_map: "sort_key f (map g xs) = map g (sort_key (\<lambda>a. f (g a)) xs)"
  by (induction xs) (auto simp: insort_key_map)

lemma spec_ranking_rows:
  "spec_ranking fz q T =
     (let S = sort_key (\<lambda>x. - ticker_score fz q x) T
      in if sum_list (map (ticker_score fz q) (take 5 S)) < 300
         then map (\<lambda>x. (name_score fz q x, x)) (sort_key (\<lambda>x. - name_score fz q x) S)
         else map (\<lambda>x. (ticker_score fz q x, x)) S)"
  unfolding spec_ranking_def sort_descending_def Let_def sort_key_map
  by (simp add: comp_def take_map sort_key_map)


lemma search_symbols_hit:
  "searched_symbols self q = Some cached \<Longrightarrow> search_symbols fz q (w, self) = (cached, w, self)"
  by (simp add: search_symbols_def)

lemma Match_value_update: "Match_value (x\<lparr>Match := Some v\<rparr>) = v"
  by (simp add: Match_value_def)

lemma search_symbols_miss:
  assumes "searched_symbols self q = None"
  shows "search_symbols fz q (w, self) =
     (map (\<lambda>(s, x). (Symbol x, Description x)) (take 10 (spec_ranking fz q (rows (table_searched w self)))),
      (if refresh_due w self then snd (get_symbol_list w) else w),
      \<lparr>symbol_list =
         \<lparr>columns = (if ''Match'' \<in> set (columns (table_searched w self))
                     then columns (table_searched w self)
                     else columns (table_searched w self) @ [''Match'']),
          rows = map (\<lambda>(s, x). x\<lparr>Match := Some s\<rparr>) (spec_ranking fz q (rows (table_searched w self)))\<rparr>,
       symbol_ts = (if refresh_due w self then now w else symbol_ts self),
       searched_symbols = (searched_symbols self)
          (q \<mapsto> map (\<lambda>(s, x). (Symbol x, Description x))
                  (take 10 (spec_ranking fz q (rows (table_searched w self)))))\<rparr>)"
proof (cases "refresh_due w self")
  case True
  show ?thesis
    using assms True
    unfolding search_symbols_def spec_ranking_rows table_searched_def
    by (simp add: Let_def get_symbol_list_def setitem_Match_def sort_values_Match_def head_def
        sort_key_map Match_value_update ticker_score_def[abs_def] name_score_def[abs_def] take_map comp_def
        zip_map_map zip_same_conv_map split: prod.splits) 
next
  case False
  show ?thesis
    using assms False
    unfolding search_symbols_def spec_ranking_rows table_searched_def
    by (simp add: Let_def setitem_Match_def sort_values_Match_def head_def
        sort_key_map Match_value_update ticker_score_def[abs_def] name_score_def[abs_def] take_map comp_def
        zip_map_map zip_same_conv_map split: prod.splits)
qed





lemma hd_sort_key_least:
  assumes "xs \<noteq> []"
  shows "hd (sort_key f xs) \<in> set xs" and "\<forall>x \<in> set xs. f (hd (sort_key f xs)) \<le> f x"
proof -
  from assms have "sort_key f xs \<noteq> []" by (metis length_sort length_0_conv)
  then obtain y ys where ys: "sort_key f xs = y # ys" by (cases "sort_key f xs") auto
  have "set (sort_key f xs) = set xs" by simp
  with ys show "hd (sort_key f xs) \<in> set xs" by auto
  have "sorted (map f (sort_key f xs))" by (rule sorted_sort_key)
  with ys have "\<forall>z \<in> set ys. f y \<le> f z" by simp
  with ys \<open>set (sort_key f xs) = set xs\<close> show "\<forall>x \<in> set xs. f (hd (sort_key f xs)) \<le> f x"
    by (metis list.sel(1) order_refl set_ConsD)
qed


lemma cache_bounded:
  "reachable fz self \<Longrightarrow> searched_symbols self q = Some r \<Longrightarrow> length r \<le> 10"
proof (induction arbitrary: q r rule: reachable.induct)
  case (init w)
  then show ?case by (simp add: Symbol_init_def split: prod.splits)
next
  case (search self q' w)
  show ?case
  proof (cases "searched_symbols self q'")
    case None
    from search.prems show ?thesis
      unfolding search_symbols_miss[OF None]
      using search.IH by (auto split: if_splits)
  next
    case (Some cached)
    from search.prems show ?thesis
      unfolding search_symbols_hit[OF Some]
      using search.IH by simp
  qed
qed


lemma refresh_never_due_after_fetch: "symbol_ts self \<le> now w \<Longrightarrow> \<not> refresh_due w self"
  by (simp add: refresh_due_def hours_def)

text \<open>
  C8. In every state the object can reach, a call returns at most 10 pairs; and a second
  call with the same query, whatever the clock and the server have become in between,
  returns the list of the first and changes nothing.
\<close>

theorem search_symbols_cached_and_bounded:
  assumes "reachable fz self"
  shows "length (fst (search_symbols fz q (w, self))) \<le> 10 \<and>
         search_symbols fz q (w', snd (snd (search_symbols fz q (w, self)))) =
           (fst (search_symbols fz q (w, self)), w', snd (snd (search_symbols fz q (w, self))))"
proof (cases "searched_symbols self q")
  case None
  show ?thesis
    unfolding search_symbols_miss[OF None]
    by (simp add: search_symbols_hit)
next
  case (Some cached)
  with assms have "length cached \<le> 10" by (rule cache_bounded)
  with Some show ?thesis
    by (simp add: search_symbols_hit)
qed






text \<open>
  C6, as amended. When the query is not cached, the scorer gives 100 to the exact ticker and
  less to every other ticker of the table, and the five best ticker scores sum to at least
  300 (so that the ranking by ticker is kept), the first pair returned carries that ticker.
\<close>

theorem exact_ticker_ranks_first:
  assumes miss: "searched_symbols self q = None"
    and ex: "\<exists>x \<in> set (rows (table_searched w self)). lower (Symbol x) = lower q"
    and same: "ratio fz (lower q) (lower q) = 100"
    and less: "\<forall>x \<in> set (rows (table_searched w self)).
                 lower (Symbol x) \<noteq> lower q \<longrightarrow> ratio fz (lower q) (lower (Symbol x)) < 100"
    and top: "300 \<le> sum_list (map fst (take 5 (sort_descending
                 (map (\<lambda>x. (ticker_score fz q x, x)) (rows (table_searched w self))))))"
  shows "fst (search_symbols fz q (w, self)) \<noteq> [] \<and>
         lower (fst (hd (fst (search_symbols fz q (w, self))))) = lower q"
proof -
  define T where "T = rows (table_searched w self)"
  define t where "t = ticker_score fz q"
  define S where "S = sort_key (\<lambda>x. - t x) T"
  from ex obtain x where x: "x \<in> set T" "lower (Symbol x) = lower q" unfolding T_def by blast
  then have T: "T \<noteq> []" by auto
  have sd: "sort_descending (map (\<lambda>x. (t x, x)) T) = map (\<lambda>x. (t x, x)) S"
    unfolding sort_descending_def S_def sort_key_map by simp
  have "sum_list (map fst (take 5 (map (\<lambda>x. (t x, x)) S))) = sum_list (map t (take 5 S))"
    by (simp add: take_map comp_def)
  with top have big: "\<not> sum_list (map t (take 5 S)) < 300"
    unfolding T_def[symmetric] t_def[symmetric] sd by simp
  have R: "spec_ranking fz q T = map (\<lambda>x. (t x, x)) S"
    unfolding spec_ranking_rows Let_def t_def[symmetric] S_def[symmetric] using big by simp
  have S: "S \<noteq> []" unfolding S_def using T by (metis length_sort length_0_conv)
  then obtain y ys where yys: "S = y # ys" by (cases S) auto
  have "fst (search_symbols fz q (w, self)) =
          map (\<lambda>(s, x). (Symbol x, Description x)) (take 10 (spec_ranking fz q T))"
    unfolding search_symbols_miss[OF miss] T_def by simp
  then have res: "fst (search_symbols fz q (w, self)) =
          (Symbol y, Description y) # map (\<lambda>(s, x). (Symbol x, Description x)) (take 9 (map (\<lambda>x. (t x, x)) ys))"
    unfolding R yys by simp
  have "hd S \<in> set T" and "\<forall>z \<in> set T. - t (hd S) \<le> - t z"
    unfolding S_def using hd_sort_key_least[OF T, of "\<lambda>x. - t x"] by blast+
  then have yT: "y \<in> set T" and least: "\<forall>z \<in> set T. t z \<le> t y"
    unfolding yys by simp_all
  from least x(1) have "t x \<le> t y" by blast
  moreover have "t x = 100" unfolding t_def ticker_score_def x(2) by (rule same)
  ultimately have "\<not> ratio fz (lower q) (lower (Symbol y)) < 100"
    unfolding t_def ticker_score_def by simp
  with less yT have "lower (Symbol y) = lower q" unfolding T_def by blast
  with res show ?thesis by simp
qed

section \<open>The search on concrete tables\<close>

lemma two_rows_state_eq:
  "two_rows_state =
     \<lparr>symbol_list =
        \<lparr>columns = [''Symbol'', ''Issue_Name'', ''Primary_Listing_Mkt'', ''Description''],
         rows = [\<lparr>Symbol = ''ZZZZ'', Issue_Name = ''aapl'', Primary_Listing_Mkt = ''N'',
                   Description = ''ZZZZ: aapl'', Match = None\<rparr>,
                 \<lparr>Symbol = ''AAPL'', Issue_Name = ''xyz'', Primary_Listing_Mkt = ''Q'',
                   Description = ''AAPL: xyz'', Match = None\<rparr>]\<rparr>,
      symbol_ts = 0, searched_symbols = Map.empty\<rparr>"
  by (simp add: two_rows_state_def Symbol_init_def get_symbol_list_def two_rows_def)

lemma two_rows_world_eq:
  "two_rows_world = \<lparr>now = 0, served = [(''ZZZZ'', ''aapl'', ''N''), (''AAPL'', ''xyz'', ''Q'')], fetches = 1\<rparr>"
  by (simp add: two_rows_world_def Symbol_init_def get_symbol_list_def two_rows_def)

lemma two_rows_not_due:
  "\<not> refresh_due two_rows_later two_rows_state" "\<not> refresh_due two_rows_world two_rows_state"
  by (simp_all add: refresh_due_def two_rows_later_def two_rows_state_eq two_rows_world_eq hours_def)

lemma two_rows_miss: "searched_symbols two_rows_state q = None"
  by (simp add: two_rows_state_eq)

lemma two_rows_table:
  "table_searched two_rows_later two_rows_state = symbol_list two_rows_state"
  "table_searched two_rows_world two_rows_state = symbol_list two_rows_state"
  by (simp_all add: table_searched_def two_rows_not_due)

lemma two_rows_xyz:
  "spec_ranking fuzzywuzzy ''xyz'' (rows (symbol_list two_rows_state)) =
   [(100, \<lparr>Symbol = ''AAPL'', Issue_Name = ''xyz'', Primary_Listing_Mkt = ''Q'',
                   Description = ''AAPL: xyz'', Match = None\<rparr>),
    (0, \<lparr>Symbol = ''ZZZZ'', Issue_Name = ''aapl'', Primary_Listing_Mkt = ''N'',
                   Description = ''ZZZZ: aapl'', Match = None\<rparr>)]"
  unfolding two_rows_state_eq by code_simp

lemma two_rows_AAPL:
  "spec_ranking fuzzywuzzy ''AAPL'' (rows (symbol_list two_rows_state)) =
   [(100, \<lparr>Symbol = ''ZZZZ'', Issue_Name = ''aapl'', Primary_Listing_Mkt = ''N'',
                   Description = ''ZZZZ: aapl'', Match = None\<rparr>),
    (0, \<lparr>Symbol = ''AAPL'', Issue_Name = ''xyz'', Primary_Listing_Mkt = ''Q'',
                   Description = ''AAPL: xyz'', Match = None\<rparr>)]"
  unfolding two_rows_state_eq by code_simp

text \<open>
  C1. Four hours after the download (more than the 3 hours of the TTL) a query that is not
  cached is answered without a new download: the number of downloads and the timestamp are
  what they were, and the answer comes from the old table, not from the file now served.
  Line 56 subtracts the clock from the timestamp, not the timestamp from the clock.
\<close>

theorem search_symbols_ttl_check_reversed:
  "hours 3 < now two_rows_later - symbol_ts two_rows_state \<and>
   searched_symbols two_rows_state ''xyz'' = None \<and>
   fetches (fst (snd (search_symbols fuzzywuzzy ''xyz'' (two_rows_later, two_rows_state)))) =
     fetches two_rows_later \<and>
   symbol_ts (snd (snd (search_symbols fuzzywuzzy ''xyz'' (two_rows_later, two_rows_state)))) =
     symbol_ts two_rows_state \<and>
   fst (search_symbols fuzzywuzzy ''xyz'' (two_rows_later, two_rows_state)) =
     [(''AAPL'', ''AAPL: xyz''), (''ZZZZ'', ''ZZZZ: aapl'')]"
proof -
  have 1: "hours 3 < now two_rows_later - symbol_ts two_rows_state"
    by (simp add: two_rows_later_def two_rows_state_eq hours_def)
  show ?thesis
    unfolding search_symbols_miss[OF two_rows_miss] two_rows_table two_rows_xyz
    using 1 two_rows_not_due by (simp add: two_rows_miss)
qed


text \<open>
  C6, as stated, fails: in a table whose five best ticker scores sum to less than 300 the
  ranking by issue name replaces the ranking by ticker, and the row with the exact ticker
  \<open>AAPL\<close> comes second, after the row whose issue name contains the query.
\<close>

theorem exact_ticker_not_first:
  "searched_symbols two_rows_state ''AAPL'' = None \<and>
   list_ex (\<lambda>x. lower (Symbol x) = lower ''AAPL'') (rows (table_searched two_rows_world two_rows_state)) \<and>
   fst (search_symbols fuzzywuzzy ''AAPL'' (two_rows_world, two_rows_state)) =
     [(''ZZZZ'', ''ZZZZ: aapl''), (''AAPL'', ''AAPL: xyz'')]"
proof -
  have 1: "list_ex (\<lambda>x. lower (Symbol x) = lower ''AAPL'') (rows (symbol_list two_rows_state))"
    unfolding two_rows_state_eq by code_simp
  show ?thesis
    unfolding search_symbols_miss[OF two_rows_miss] two_rows_table two_rows_AAPL
    using 1 by (simp add: two_rows_miss)
qed




lemma twelve_rows_state_eq:
  "twelve_rows_state =
     \<lparr>symbol_list =
        \<lparr>columns = [''Symbol'', ''Issue_Name'', ''Primary_Listing_Mkt'', ''Description''],
         rows = map (\<lambda>(sym, name, mkt).
                  \<lparr>Symbol = sym, Issue_Name = name, Primary_Listing_Mkt = mkt,
                   Description = sym @ '': '' @ name, Match = None\<rparr>) (served twelve_rows)\<rparr>,
      symbol_ts = 0, searched_symbols = Map.empty\<rparr>"
  by (simp add: twelve_rows_state_def Symbol_init_def get_symbol_list_def twelve_rows_def)

lemma twelve_rows_miss: "searched_symbols twelve_rows_state q = None"
  by (simp add: twelve_rows_state_eq)

lemma twelve_rows_table:
  "table_searched twelve_rows_world twelve_rows_state = symbol_list twelve_rows_state"
  by (simp add: table_searched_def refresh_due_def twelve_rows_state_eq twelve_rows_world_def
      Symbol_init_def get_symbol_list_def twelve_rows_def hours_def)

lemma twelve_rows_a:
  "map (\<lambda>(s, x). (Symbol x, Description x))
     (take 10 (spec_ranking fuzzywuzzy ''a'' (rows (symbol_list twelve_rows_state)))) =
   [(''A'', ''A: Agilent''), (''AB'', ''AB: Abel''), (''AC'', ''AC: Acme''), (''AD'', ''AD: Adder''),
    (''B'', ''B: Barnes''), (''C'', ''C: Citi''), (''D'', ''D: Dominion''), (''E'', ''E: Eni''),
    (''F'', ''F: Ford''), (''G'', ''G: Genpact'')]"
  unfolding twelve_rows_state_eq twelve_rows_def by code_simp

theorem exact_ticker_ranks_first_witness:
  "searched_symbols twelve_rows_state ''a'' = None \<and>
   list_ex (\<lambda>x. lower (Symbol x) = lower ''a'') (rows (table_searched twelve_rows_world twelve_rows_state)) \<and>
   ratio fuzzywuzzy (lower ''a'') (lower ''a'') = 100 \<and>
   list_all (\<lambda>x. lower (Symbol x) = lower ''a'' \<or> ratio fuzzywuzzy (lower ''a'') (lower (Symbol x)) < 100)
     (rows (table_searched twelve_rows_world twelve_rows_state)) \<and>
   sum_list (map fst (take 5 (sort_descending
      (map (\<lambda>x. (ticker_score fuzzywuzzy ''a'' x, x))
         (rows (table_searched twelve_rows_world twelve_rows_state)))))) = 301 \<and>
   fst (hd (fst (search_symbols fuzzywuzzy ''a'' (twelve_rows_world, twelve_rows_state)))) = ''A'' \<and>
   lower ''A'' = lower ''a''"
proof -
  have ex: "list_ex (\<lambda>x. lower (Symbol x) = lower ''a'') (rows (symbol_list twelve_rows_state))"
    unfolding twelve_rows_state_eq twelve_rows_def by code_simp
  have same: "ratio fuzzywuzzy (lower ''a'') (lower ''a'') = 100"
    by (simp add: fuzzywuzzy_def fuzz_ratio_def)
  have less: "list_all (\<lambda>x. lower (Symbol x) = lower ''a'' \<or> ratio fuzzywuzzy (lower ''a'') (lower (Symbol x)) < 100)
     (rows (symbol_list twelve_rows_state))"
    unfolding twelve_rows_state_eq twelve_rows_def by code_simp
  have top: "sum_list (map fst (take 5 (sort_descending
      (map (\<lambda>x. (ticker_score fuzzywuzzy ''a'' x, x)) (rows (symbol_list twelve_rows_state)))))) = 301"
    unfolding twelve_rows_state_eq twelve_rows_def by code_simp
  have l: "lower ''A'' = lower ''a''" by code_simp
  have r: "fst (search_symbols fuzzywuzzy ''a'' (twelve_rows_world, twelve_rows_state)) =
     [(''A'', ''A: Agilent''), (''AB'', ''AB: Abel''), (''AC'', ''AC: Acme''), (''AD'', ''AD: Adder''),
      (''B'', ''B: Barnes''), (''C'', ''C: Citi''), (''D'', ''D: Dominion''), (''E'', ''E: Eni''),
      (''F'', ''F: Ford''), (''G'', ''G: Genpact'')]"
    unfolding search_symbols_miss[OF twelve_rows_miss] twelve_rows_table twelve_rows_a by simp
  have ex': "\<exists>x \<in> set (rows (table_searched twelve_rows_world twelve_rows_state)). lower (Symbol x) = lower ''a''"
    using ex unfolding twelve_rows_table by (simp add: list_ex_iff)
  have less': "\<forall>x \<in> set (rows (table_searched twelve_rows_world twelve_rows_state)).
                 lower (Symbol x) \<noteq> lower ''a'' \<longrightarrow> ratio fuzzywuzzy (lower ''a'') (lower (Symbol x)) < 100"
    using less unfolding twelve_rows_table by (auto simp: list_all_iff)
  have top': "300 \<le> sum_list (map fst (take 5 (sort_descending
      (map (\<lambda>x. (ticker_score fuzzywuzzy ''a'' x, x))
         (rows (table_searched twelve_rows_world twelve_rows_state))))))"
    unfolding twelve_rows_table top by simp
  show ?thesis
    using exact_ticker_ranks_first [OF twelve_rows_miss ex' same less' top']
    unfolding twelve_rows_table r using ex same less top l by (simp add: twelve_rows_miss)
qed

theorem search_symbols_cached_and_bounded_witness:
  "reachable fuzzywuzzy twelve_rows_state \<and>
   length (rows (symbol_list twelve_rows_state)) = 12 \<and>
   length (fst (search_symbols fuzzywuzzy ''a'' (twelve_rows_world, twelve_rows_state))) = 10 \<and>
   fst (search_symbols fuzzywuzzy ''a''
          (twelve_rows_world, snd (snd (search_symbols fuzzywuzzy ''a'' (twelve_rows_world, twelve_rows_state))))) =
     fst (search_symbols fuzzywuzzy ''a'' (twelve_rows_world, twelve_rows_state))"
proof -
  have reach: "reachable fuzzywuzzy twelve_rows_state"
    unfolding twelve_rows_state_def by (rule reachable.init)
  have n: "length (rows (symbol_list twelve_rows_state)) = 12"
    by (simp add: twelve_rows_state_eq twelve_rows_def)
  have r: "length (fst (search_symbols fuzzywuzzy ''a'' (twelve_rows_world, twelve_rows_state))) = 10"
    unfolding search_symbols_miss[OF twelve_rows_miss] twelve_rows_table twelve_rows_a by simp
  show ?thesis
    using search_symbols_cached_and_bounded [OF reach, of "''a''" twelve_rows_world twelve_rows_world]
      reach n r by simp
qed

end
